theory Spec2Isabelle
  imports Complex_Main "HOL-Library.Multiset"
begin

section \<open>JavaScript values as the handlers see them\<close>

text \<open>
  A JavaScript string is a sequence of UTF-16 code units; the response messages of
  \<^verbatim>\<open>server.js\<close> are Japanese text and \<^verbatim>\<open>String.prototype.trim\<close> removes
  code units beyond ASCII (U+3000 among them), so strings are lists of code units.
\<close>

type_synonym js_string = "nat list"

text \<open>ASCII text of this file as a JavaScript string.\<close>

definition js :: "string \<Rightarrow> js_string" where
  "js s = map of_char s"

text \<open>
  The values that \<^verbatim>\<open>express.json()\<close> and the query parser put into \<^verbatim>\<open>req.body\<close>
  and \<^verbatim>\<open>req.query\<close>; a property that is not there reads as \<open>JUndefined\<close>.
  \<open>JNum\<close> holds the value of a Number (JSON has no NaN literal).
\<close>

datatype jsval =
    JUndefined
  | JNull
  | JBool bool
  | JNum rat
  | JStr js_string
  | JArr "jsval list"
  | JObj "(string \<times> jsval) list"

text \<open>ToBoolean, as used by \<^verbatim>\<open>!x\<close>, \<^verbatim>\<open>x || y\<close> and \<^verbatim>\<open>x ? a : b\<close>.\<close>

fun truthy :: "jsval \<Rightarrow> bool" where
  "truthy JUndefined = False"
| "truthy JNull = False"
| "truthy (JBool b) = b"
| "truthy (JNum n) = (n \<noteq> 0)"
| "truthy (JStr s) = (s \<noteq> [])"
| "truthy (JArr xs) = True"
| "truthy (JObj kvs) = True"

text \<open>\<^verbatim>\<open>x || null\<close>\<close>

definition or_null :: "jsval \<Rightarrow> jsval" where
  "or_null x = (if truthy x then x else JNull)"

text \<open>
  Exceptions that reach the \<^verbatim>\<open>catch\<close> blocks. The storage client's known request
  errors carry a \<^verbatim>\<open>code\<close> property; \<open>OtherPrismaError\<close> stands for every error of the
  client or the database whose code, if it has one, is none of those the handlers
  compare with (P2002, P2025).
\<close>

datatype js_error =
    TypeError
  | PrismaClientKnownRequestError string
  | PrismaClientValidationError
  | OtherPrismaError

fun error_code :: "js_error \<Rightarrow> string option" where
  "error_code (PrismaClientKnownRequestError c) = Some c"
| "error_code TypeError = None"
| "error_code PrismaClientValidationError = None"
| "error_code OtherPrismaError = None"

text \<open>
  WhiteSpace and LineTerminator code units of ECMAScript: what \<^verbatim>\<open>trim\<close> strips at
  both ends and \<^verbatim>\<open>parseInt\<close> skips at the start.
\<close>

definition is_js_whitespace :: "nat \<Rightarrow> bool" where
  "is_js_whitespace c \<longleftrightarrow>
     c \<in> {0x9, 0xA, 0xB, 0xC, 0xD, 0x20, 0xA0, 0x1680, 0x2028, 0x2029, 0x202F, 0x205F,
          0x3000, 0xFEFF}
     \<or> (0x2000 \<le> c \<and> c \<le> 0x200A)"

definition trim :: "js_string \<Rightarrow> js_string" where
  "trim s = rev (dropWhile is_js_whitespace (rev (dropWhile is_js_whitespace s)))"

text \<open>
  \<^verbatim>\<open>content.trim()\<close> on an arbitrary value: only strings have the method; on any other
  truthy value the property is undefined and the call throws a TypeError (on
  \<^verbatim>\<open>undefined\<close> and \<^verbatim>\<open>null\<close> the property access itself throws).
\<close>

fun call_trim :: "jsval \<Rightarrow> js_error + js_string" where
  "call_trim (JStr s) = Inr (trim s)"
| "call_trim v = Inl TypeError"

subsection \<open>parseInt\<close>

text \<open>
  A Number that \<^verbatim>\<open>parseInt\<close> can return: NaN, an integer that a double holds, or an
  infinity.
\<close>

datatype js_number = NaN | Num int | PosInfinity | NegInfinity

text \<open>The number of binary digits of a natural number.\<close>

fun bit_length :: "nat \<Rightarrow> nat" where
  "bit_length m = (if m = 0 then 0 else Suc (bit_length (m div 2)))"

declare bit_length.simps [simp del]

text \<open>
  The double nearest to a natural number, ties to the even significand: numbers below
  \<open>2^53\<close> are held exactly, larger ones keep their 53 leading binary digits, and what would
  reach \<open>2^1024\<close> is infinite (\<open>None\<close>).
\<close>

definition round_to_double :: "nat \<Rightarrow> nat option" where
  "round_to_double m =
     (if m < 2 ^ 53 then Some m
      else
        let e = bit_length m - 53;
            q = m div 2 ^ e;
            r = m mod 2 ^ e;
            half = 2 ^ (e - 1);
            q' = (if half < r \<or> (r = half \<and> odd q) then q + 1 else q)
        in if 2 ^ 1024 \<le> q' * 2 ^ e then None else Some (q' * 2 ^ e))"

definition number_of_integer :: "int \<Rightarrow> nat \<Rightarrow> js_number" where
  "number_of_integer sign m =
     (case round_to_double m of
        None \<Rightarrow> if sign < 0 then NegInfinity else PosInfinity
      | Some v \<Rightarrow> Num (sign * int v))"

text \<open>
  \<^verbatim>\<open>parseInt(string)\<close> with no radix, following the steps of ECMAScript: skip leading
  white space, read a sign, switch to radix 16 on a \<^verbatim>\<open>0x\<close>/\<^verbatim>\<open>0X\<close> prefix, take the longest
  run of digits of the radix, answer NaN when that run is empty, and otherwise the
  Number for the integer the run denotes.
\<close>

definition digit_value :: "nat \<Rightarrow> nat option" where
  "digit_value c =
     (if 0x30 \<le> c \<and> c \<le> 0x39 then Some (c - 0x30)
      else if 0x61 \<le> c \<and> c \<le> 0x7A then Some (c - 0x61 + 10)
      else if 0x41 \<le> c \<and> c \<le> 0x5A then Some (c - 0x41 + 10)
      else None)"

definition is_radix_digit :: "nat \<Rightarrow> nat \<Rightarrow> bool" where
  "is_radix_digit R c = (case digit_value c of None \<Rightarrow> False | Some d \<Rightarrow> d < R)"

definition digits_value :: "nat \<Rightarrow> js_string \<Rightarrow> nat" where
  "digits_value R Z =
     foldl (\<lambda>acc c. acc * R + (case digit_value c of None \<Rightarrow> 0 | Some d \<Rightarrow> d)) 0 Z"

definition strip_sign :: "js_string \<Rightarrow> int \<times> js_string" where
  "strip_sign S =
     (case S of
        [] \<Rightarrow> (1, [])
      | c # rest \<Rightarrow>
          if c = 0x2D then (- 1, rest)
          else if c = 0x2B then (1, rest)
          else (1, S))"

definition strip_prefix :: "js_string \<Rightarrow> nat \<times> js_string" where
  "strip_prefix S =
     (case S of
        a # b # rest \<Rightarrow> if a = 0x30 \<and> (b = 0x78 \<or> b = 0x58) then (16, rest) else (10, S)
      | _ \<Rightarrow> (10, S))"

definition parseInt :: "js_string \<Rightarrow> js_number" where
  "parseInt inputString =
     (let (sign, S1) = strip_sign (dropWhile is_js_whitespace inputString);
          (R, S2) = strip_prefix S1;
          Z = takeWhile (is_radix_digit R) S2
      in if Z = [] then NaN else number_of_integer sign (digits_value R Z))"

section \<open>Storage\<close>

text \<open>
  The rows of the two tables. \<^verbatim>\<open>migration.sql\<close> gives the columns of \<open>Post\<close>. Ids and
  timestamps are numbers here; the limits of the columns are written into the operations
  below.
\<close>

record post =
  post_id :: int
  post_content :: js_string
  post_imageUrl :: "js_string option"
  post_userId :: "js_string option"
  post_createdAt :: nat
  post_updatedAt :: nat

record like =
  like_id :: int
  like_postId :: int
  like_userId :: js_string

text \<open>
  Modelled from the spec: the relation between \<open>Like.postId\<close> and \<open>Post\<close>. The schema of
  \<open>Like\<close> is not among the sources. The spec writes "postId references Post", leaves the
  fate of the likes of a deleted post open and names cascade-delete and
  orphan-and-ignore as the choices; a foreign key that refuses the deletion is the third
  behaviour a relational store offers. The relation is therefore a parameter of the
  database.
\<close>

datatype referential_action = Cascade | Restrict

datatype like_post_relation = NoForeignKey | ForeignKey referential_action

text \<open>
  The database: both tables in insertion order, the two id sequences (the next value
  each hands out) and the relation above.
\<close>

record db =
  posts :: "post list"
  likes :: "like list"
  post_seq :: int
  like_seq :: int
  relation :: like_post_relation

definition has_post :: "db \<Rightarrow> int \<Rightarrow> bool" where
  "has_post d i \<longleftrightarrow> i \<in> post_id ` set (posts d)"

definition has_like :: "db \<Rightarrow> int \<Rightarrow> js_string \<Rightarrow> bool" where
  "has_like d p u \<longleftrightarrow> (\<exists>l \<in> set (likes d). like_postId l = p \<and> like_userId l = u)"

text \<open>
  Modelled from the spec: a text column of the storage client (\<open>imageUrl\<close>, \<open>userId\<close>:
  "optional text, nullable"). The generated client is not among the sources; it accepts
  a string or null for such a column and rejects every other value before any query runs.
\<close>

fun nullable_text :: "jsval \<Rightarrow> js_error + js_string option" where
  "nullable_text (JStr s) = Inr (Some s)"
| "nullable_text JNull = Inr None"
| "nullable_text JUndefined = Inr None"
| "nullable_text v = Inl PrismaClientValidationError"

text \<open>
  Modelled from the spec: a required text value given to the storage client (\<open>Like.userId\<close>:
  "text identifier, required"), in a row to insert or as the value a filter compares with.
  Only a string is taken as such a value here; filter objects of the client's query
  language are outside this model and count as rejected.
\<close>

fun required_text :: "jsval \<Rightarrow> js_error + js_string" where
  "required_text (JStr s) = Inr s"
| "required_text v = Inl PrismaClientValidationError"

text \<open>
  Text that a \<^verbatim>\<open>TEXT\<close> column (\<^verbatim>\<open>migration.sql\<close>) can hold and the client can send: no
  code unit is U+0000, and every surrogate code unit is half of a pair.
\<close>

definition is_high_surrogate :: "nat \<Rightarrow> bool" where
  "is_high_surrogate c \<longleftrightarrow> 0xD800 \<le> c \<and> c \<le> 0xDBFF"

definition is_low_surrogate :: "nat \<Rightarrow> bool" where
  "is_low_surrogate c \<longleftrightarrow> 0xDC00 \<le> c \<and> c \<le> 0xDFFF"

fun well_formed_utf16 :: "js_string \<Rightarrow> bool" where
  "well_formed_utf16 [] = True"
| "well_formed_utf16 [c] = (\<not> is_high_surrogate c \<and> \<not> is_low_surrogate c)"
| "well_formed_utf16 (c # c' # cs) =
     (if is_high_surrogate c then is_low_surrogate c' \<and> well_formed_utf16 cs
      else \<not> is_low_surrogate c \<and> well_formed_utf16 (c' # cs))"

definition storable_text :: "js_string \<Rightarrow> bool" where
  "storable_text s \<longleftrightarrow> 0 \<notin> set s \<and> well_formed_utf16 s"

definition storable_option :: "js_string option \<Rightarrow> bool" where
  "storable_option x = (case x of None \<Rightarrow> True | Some s \<Rightarrow> storable_text s)"

text \<open>
  The values of the column \<^verbatim>\<open>"id" SERIAL\<close> of \<open>Post\<close>: 32-bit signed integers. An id
  outside this range, or one that is no finite number, is refused by the store with an
  error other than "not found".
\<close>

definition int4 :: "int \<Rightarrow> bool" where
  "int4 i \<longleftrightarrow> - (2 ^ 31) \<le> i \<and> i < 2 ^ 31"

fun post_id_argument :: "js_number \<Rightarrow> js_error + int" where
  "post_id_argument (Num i) = (if int4 i then Inr i else Inl OtherPrismaError)"
| "post_id_argument n = Inl OtherPrismaError"

text \<open>
  Modelled from the spec: \<open>Like.postId\<close> as an argument. The type of the column is not
  among the sources; only a finite number is asked for here.
\<close>

fun like_postId_argument :: "js_number \<Rightarrow> js_error + int" where
  "like_postId_argument (Num i) = Inr i"
| "like_postId_argument n = Inl OtherPrismaError"

text \<open>
  Modelled from the spec: \<^verbatim>\<open>prisma.post.create\<close>, "insert-with-returning" with
  "server-assigned id and timestamps". The id is the next value of the sequence, both
  timestamps are the time \<open>now\<close> of the insertion. The insertion fails when a text is
  not storable or the sequence of the \<^verbatim>\<open>SERIAL\<close> column has no value left.
\<close>

definition post_create ::
  "db \<Rightarrow> nat \<Rightarrow> js_string \<Rightarrow> jsval \<Rightarrow> jsval \<Rightarrow> js_error + (post \<times> db)" where
  "post_create d now content imageUrl userId =
     (case nullable_text imageUrl of
        Inl e \<Rightarrow> Inl e
      | Inr img \<Rightarrow>
          (case nullable_text userId of
             Inl e \<Rightarrow> Inl e
           | Inr usr \<Rightarrow>
               if \<not> (storable_text content \<and> storable_option img \<and> storable_option usr)
               then Inl OtherPrismaError
               else if \<not> int4 (post_seq d) then Inl OtherPrismaError
               else
                 let p = \<lparr>post_id = post_seq d, post_content = content, post_imageUrl = img,
                          post_userId = usr, post_createdAt = now, post_updatedAt = now\<rparr>
                 in Inr (p, d\<lparr>posts := posts d @ [p], post_seq := post_seq d + 1\<rparr>)))"

text \<open>
  Modelled from the spec: the order of the rows that a list query returns, "ordered by
  \<open>createdAt\<close> descending (newest first -- strict, stable tie-break by insertion order/id
  if timestamps collide)". The rows of the table, which are in insertion order, are
  sorted by a stable sort on \<open>createdAt\<close> in the direction the query names.
\<close>

datatype sort_order = Asc | Desc

definition orderBy_createdAt :: "sort_order \<Rightarrow> post list \<Rightarrow> post list" where
  "orderBy_createdAt ord rows =
     (case ord of
        Asc \<Rightarrow> sort_key (\<lambda>p. int (post_createdAt p)) rows
      | Desc \<Rightarrow> sort_key (\<lambda>p. - int (post_createdAt p)) rows)"

text \<open>
  Modelled from the spec: \<^verbatim>\<open>prisma.post.findMany({orderBy: {createdAt: ...}})\<close>,
  "find-many-with-order", without \<^verbatim>\<open>include\<close>: all rows, in that order.
\<close>

definition post_findMany :: "db \<Rightarrow> sort_order \<Rightarrow> post list" where
  "post_findMany d ord = orderBy_createdAt ord (posts d)"

text \<open>
  Modelled from the spec: \<^verbatim>\<open>prisma.post.delete\<close>, "delete-by-id (signals not-found
  distinctly from other failures)". A missing row is error P2025; a row that likes still
  refer to is removed together with them, removed alone, or kept (error P2003),
  as the relation says.
\<close>

definition post_delete :: "db \<Rightarrow> js_number \<Rightarrow> js_error + db" where
  "post_delete d n =
     (case post_id_argument n of
        Inl e \<Rightarrow> Inl e
      | Inr i \<Rightarrow>
          if \<not> has_post d i then Inl (PrismaClientKnownRequestError ''P2025'')
          else
            (case relation d of
               NoForeignKey \<Rightarrow> Inr (d\<lparr>posts := filter (\<lambda>p. post_id p \<noteq> i) (posts d)\<rparr>)
             | ForeignKey Cascade \<Rightarrow>
                 Inr (d\<lparr>posts := filter (\<lambda>p. post_id p \<noteq> i) (posts d),
                        likes := filter (\<lambda>l. like_postId l \<noteq> i) (likes d)\<rparr>)
             | ForeignKey Restrict \<Rightarrow>
                 if \<exists>l \<in> set (likes d). like_postId l = i
                 then Inl (PrismaClientKnownRequestError ''P2003'')
                 else Inr (d\<lparr>posts := filter (\<lambda>p. post_id p \<noteq> i) (posts d)\<rparr>)))"

text \<open>
  Modelled from the spec: \<^verbatim>\<open>prisma.like.create\<close> on a table with
  "unique(postId, userId)" and "a distinct uniqueness-violation error signal" (P2002).
  With a foreign key, a like of a post that is not there is refused (P2003). A
  \<open>userId\<close> that is not storable text cannot be inserted.
\<close>

definition like_create :: "db \<Rightarrow> js_number \<Rightarrow> jsval \<Rightarrow> js_error + db" where
  "like_create d n userId =
     (case like_postId_argument n of
        Inl e \<Rightarrow> Inl e
      | Inr postId \<Rightarrow>
          (case required_text userId of
             Inl e \<Rightarrow> Inl e
           | Inr u \<Rightarrow>
               if \<not> storable_text u then Inl OtherPrismaError
               else if has_like d postId u then Inl (PrismaClientKnownRequestError ''P2002'')
               else if relation d \<noteq> NoForeignKey \<and> \<not> has_post d postId
               then Inl (PrismaClientKnownRequestError ''P2003'')
               else Inr (d\<lparr>likes := likes d @ [\<lparr>like_id = like_seq d, like_postId = postId,
                                                 like_userId = u\<rparr>],
                           like_seq := like_seq d + 1\<rparr>)))"

text \<open>Modelled from the spec: \<^verbatim>\<open>prisma.like.count({where: {postId}})\<close>, "count-with-filter".\<close>

definition like_count :: "db \<Rightarrow> js_number \<Rightarrow> js_error + nat" where
  "like_count d n =
     (case like_postId_argument n of
        Inl e \<Rightarrow> Inl e
      | Inr postId \<Rightarrow> Inr (length (filter (\<lambda>l. like_postId l = postId) (likes d))))"

text \<open>
  Modelled from the spec: \<^verbatim>\<open>prisma.like.deleteMany({where: {postId, userId}})\<close>,
  "delete-many-by-filter"; matching no row is no error.
\<close>

definition like_deleteMany :: "db \<Rightarrow> js_number \<Rightarrow> jsval \<Rightarrow> js_error + db" where
  "like_deleteMany d n userId =
     (case like_postId_argument n of
        Inl e \<Rightarrow> Inl e
      | Inr postId \<Rightarrow>
          (case required_text userId of
             Inl e \<Rightarrow> Inl e
           | Inr u \<Rightarrow>
               Inr (d\<lparr>likes := filter (\<lambda>l. \<not> (like_postId l = postId \<and> like_userId l = u))
                                       (likes d)\<rparr>)))"

text \<open>
  Modelled from the spec: the \<^verbatim>\<open>include\<close> of the list query, for one post: the
  \<open>select: {id: true}\<close> of its likes by the given user.
\<close>

definition post_likes_where :: "db \<Rightarrow> post \<Rightarrow> js_string \<Rightarrow> int list" where
  "post_likes_where d p u =
     map like_id (filter (\<lambda>l. like_postId l = post_id p \<and> like_userId l = u) (likes d))"

text \<open>
  Modelled from the spec: what the list query gives for one row: the row,
  \<^verbatim>\<open>_count.likes\<close> (the number of Like rows of the post), and \<^verbatim>\<open>likes\<close> (the ids of the
  likes by \<open>u\<close>; the property is not there under \<^verbatim>\<open>likes: false\<close>).
\<close>

definition with_includes :: "db \<Rightarrow> js_string option \<Rightarrow> post \<Rightarrow> post \<times> nat \<times> int list option" where
  "with_includes d who p =
     (p, length (filter (\<lambda>l. like_postId l = post_id p) (likes d)),
      map_option (post_likes_where d p) who)"

text \<open>
  Modelled from the spec: \<^verbatim>\<open>prisma.post.findMany\<close> with the \<^verbatim>\<open>include\<close> of
  \<^verbatim>\<open>server.js\<close>: \<^verbatim>\<open>_count: {select: {likes: true}}\<close> always, and for \<^verbatim>\<open>likes\<close> either
  \<^verbatim>\<open>false\<close> or \<^verbatim>\<open>{where: {userId}, select: {id: true}}\<close>.
\<close>

datatype likes_include = Likes_false | Likes_where_userId jsval

definition post_findMany_include ::
  "db \<Rightarrow> sort_order \<Rightarrow> likes_include \<Rightarrow> js_error + (post \<times> nat \<times> int list option) list" where
  "post_findMany_include d ord inc =
     (case inc of
        Likes_false \<Rightarrow> Inr (map (with_includes d None) (post_findMany d ord))
      | Likes_where_userId v \<Rightarrow>
          (case required_text v of
             Inl e \<Rightarrow> Inl e
           | Inr u \<Rightarrow> Inr (map (with_includes d (Some u)) (post_findMany d ord))))"

section \<open>Responses\<close>

text \<open>One element of the array that the list endpoint of \<^verbatim>\<open>server.js\<close> sends.\<close>

record formatted_post =
  fp_id :: int
  fp_content :: js_string
  fp_imageUrl :: "js_string option"
  fp_userId :: "js_string option"
  fp_createdAt :: nat
  fp_updatedAt :: nat
  likeCount :: nat
  isLiked :: bool

datatype json_body =
    Error_body js_string
  | Message_body js_string
  | Post_body post
  | Posts_body "post list"
  | Formatted_posts_body "formatted_post list"
  | Like_body nat bool

record response =
  status :: nat
  body :: json_body

text \<open>The texts of the responses, as the code units of the literals in \<^verbatim>\<open>server.js\<close>.\<close>

definition msg_fetch_failed :: js_string where
  "msg_fetch_failed =
     [0x6295, 0x7A3F, 0x306E, 0x53D6, 0x5F97, 0x306B, 0x5931, 0x6557, 0x3057, 0x307E, 0x3057,
      0x305F]"

definition msg_content_required :: js_string where
  "msg_content_required =
     [0x6295, 0x7A3F, 0x5185, 0x5BB9, 0x3092, 0x5165, 0x529B, 0x3057, 0x3066, 0x304F, 0x3060,
      0x3055, 0x3044]"

definition msg_create_failed :: js_string where
  "msg_create_failed =
     [0x6295, 0x7A3F, 0x306E, 0x4F5C, 0x6210, 0x306B, 0x5931, 0x6557, 0x3057, 0x307E, 0x3057,
      0x305F]"

definition msg_invalid_id :: js_string where
  "msg_invalid_id = [0x7121, 0x52B9, 0x306A, 0x49, 0x44, 0x3067, 0x3059]"

definition msg_deleted :: js_string where
  "msg_deleted = [0x6295, 0x7A3F, 0x3092, 0x524A, 0x9664, 0x3057, 0x307E, 0x3057, 0x305F]"

definition msg_not_found :: js_string where
  "msg_not_found =
     [0x6295, 0x7A3F, 0x304C, 0x898B, 0x3064, 0x304B, 0x308A, 0x307E, 0x305B, 0x3093]"

definition msg_delete_failed :: js_string where
  "msg_delete_failed =
     [0x6295, 0x7A3F, 0x306E, 0x524A, 0x9664, 0x306B, 0x5931, 0x6557, 0x3057, 0x307E, 0x3057,
      0x305F]"

definition msg_invalid_post_id :: js_string where
  "msg_invalid_post_id = [0x7121, 0x52B9, 0x306A, 0x6295, 0x7A3F, 0x49, 0x44, 0x3067, 0x3059]"

definition msg_userId_required :: js_string where
  "msg_userId_required =
     [0x30E6, 0x30FC, 0x30B6, 0x30FC, 0x49, 0x44, 0x304C, 0x5FC5, 0x8981, 0x3067, 0x3059]"

definition msg_already_liked :: js_string where
  "msg_already_liked =
     [0x3059, 0x3067, 0x306B, 0x3044, 0x3044, 0x306D, 0x3057, 0x3066, 0x3044, 0x307E, 0x3059]"

definition msg_like_failed :: js_string where
  "msg_like_failed =
     [0x3044, 0x3044, 0x306D, 0x306B, 0x5931, 0x6557, 0x3057, 0x307E, 0x3057, 0x305F]"

definition msg_unlike_failed :: js_string where
  "msg_unlike_failed =
     [0x3044, 0x3044, 0x306D, 0x306E, 0x524A, 0x9664, 0x306B, 0x5931, 0x6557, 0x3057, 0x307E,
      0x3057, 0x305F]"

section \<open>The handlers of server.js\<close>

text \<open>
  Each handler takes the database and the parts of the request it reads, and returns the
  response together with the database it leaves. \<^verbatim>\<open>req.body\<close> is the parsed JSON
  object, read property by property. The body of a \<^verbatim>\<open>try\<close> is a computation in
  \<open>js_error + _\<close>; the \<^verbatim>\<open>catch\<close> is the case distinction on its result. The store is
  taken to be reachable: it fails only with the errors written in its model.
\<close>

subsection \<open>The listening port\<close>

type_synonym process_env = "string \<Rightarrow> js_string option"

text \<open>\<^verbatim>\<open>const PORT = 8888;\<close> The environment of the process is not read.\<close>

definition PORT :: "process_env \<Rightarrow> jsval" where
  "PORT env = JNum 8888"

text \<open>The revision \<^verbatim>\<open>part_000\<close>: \<^verbatim>\<open>const PORT = process.env.PORT || 8888;\<close>\<close>

definition PORT_part_000 :: "process_env \<Rightarrow> jsval" where
  "PORT_part_000 env =
     (let v = (case env ''PORT'' of None \<Rightarrow> JUndefined | Some s \<Rightarrow> JStr s)
      in if truthy v then v else JNum 8888)"

subsection \<open>GET /api/posts\<close>

definition format_post :: "jsval \<Rightarrow> post \<times> nat \<times> int list option \<Rightarrow> formatted_post" where
  "format_post userId r =
     (case r of (p, count_likes, ls) \<Rightarrow>
        \<lparr>fp_id = post_id p, fp_content = post_content p, fp_imageUrl = post_imageUrl p,
         fp_userId = post_userId p, fp_createdAt = post_createdAt p,
         fp_updatedAt = post_updatedAt p, likeCount = count_likes,
         isLiked = (if truthy userId
                    then (case ls of None \<Rightarrow> False | Some xs \<Rightarrow> length xs > 0)
                    else False)\<rparr>)"

text \<open>
  \<open>userId\<close> is \<^verbatim>\<open>req.query.userId\<close>. The query is the one of the source:
  \<^verbatim>\<open>orderBy: {createdAt: "desc"}\<close>, and \<^verbatim>\<open>likes: userId ? {where: {userId}, ...} : false\<close>.
\<close>

definition GET_api_posts :: "db \<Rightarrow> jsval \<Rightarrow> response" where
  "GET_api_posts d userId =
     (case post_findMany_include d Desc
             (if truthy userId then Likes_where_userId userId else Likes_false) of
        Inr found \<Rightarrow>
          \<lparr>status = 200, body = Formatted_posts_body (map (format_post userId) found)\<rparr>
      | Inl error \<Rightarrow> \<lparr>status = 500, body = Error_body msg_fetch_failed\<rparr>)"

text \<open>
  The revision \<^verbatim>\<open>part_000\<close> asks with the same \<^verbatim>\<open>orderBy\<close> and no \<^verbatim>\<open>include\<close>, and sends
  the rows as they come.
\<close>

definition GET_api_posts_part_000 :: "db \<Rightarrow> response" where
  "GET_api_posts_part_000 d = \<lparr>status = 200, body = Posts_body (post_findMany d Desc)\<rparr>"

subsection \<open>POST /api/posts\<close>

definition POST_api_posts :: "db \<Rightarrow> nat \<Rightarrow> (string \<Rightarrow> jsval) \<Rightarrow> response \<times> db" where
  "POST_api_posts d now req_body =
     (let content = req_body ''content'';
          imageUrl = req_body ''imageUrl'';
          userId = req_body ''userId''
      in case (if \<not> truthy content
               then Inr (\<lparr>status = 400, body = Error_body msg_content_required\<rparr>, d)
               else (case call_trim content of
                       Inl e \<Rightarrow> Inl e
                     | Inr trimmed \<Rightarrow>
                         if trimmed = []
                         then Inr (\<lparr>status = 400, body = Error_body msg_content_required\<rparr>, d)
                         else (case post_create d now trimmed (or_null imageUrl)
                                      (or_null userId) of
                                 Inl e \<Rightarrow> Inl e
                               | Inr (p, d') \<Rightarrow>
                                   Inr (\<lparr>status = 201, body = Post_body p\<rparr>, d')))) of
           Inr r \<Rightarrow> r
         | Inl error \<Rightarrow> (\<lparr>status = 500, body = Error_body msg_create_failed\<rparr>, d))"

subsection \<open>DELETE /api/posts/:id\<close>

text \<open>\<^verbatim>\<open>isNaN\<close> on a Number.\<close>

definition isNaN :: "js_number \<Rightarrow> bool" where
  "isNaN n \<longleftrightarrow> n = NaN"

definition DELETE_api_posts_id :: "db \<Rightarrow> js_string \<Rightarrow> response \<times> db" where
  "DELETE_api_posts_id d params_id =
     (let idn = parseInt params_id
      in if isNaN idn
         then (\<lparr>status = 400, body = Error_body msg_invalid_id\<rparr>, d)
         else (case post_delete d idn of
                 Inr d' \<Rightarrow> (\<lparr>status = 200, body = Message_body msg_deleted\<rparr>, d')
               | Inl error \<Rightarrow>
                   if error_code error = Some ''P2025''
                   then (\<lparr>status = 404, body = Error_body msg_not_found\<rparr>, d)
                   else (\<lparr>status = 500, body = Error_body msg_delete_failed\<rparr>, d)))"

subsection \<open>POST /api/posts/:id/like\<close>

definition POST_api_posts_id_like ::
  "db \<Rightarrow> js_string \<Rightarrow> (string \<Rightarrow> jsval) \<Rightarrow> response \<times> db" where
  "POST_api_posts_id_like d params_id req_body =
     (let postId = parseInt params_id;
          userId = req_body ''userId''
      in if isNaN postId
         then (\<lparr>status = 400, body = Error_body msg_invalid_post_id\<rparr>, d)
         else if \<not> truthy userId
         then (\<lparr>status = 400, body = Error_body msg_userId_required\<rparr>, d)
         else (case (case like_create d postId userId of
                       Inl e \<Rightarrow> Inl e
                     | Inr d' \<Rightarrow>
                         (case like_count d' postId of
                            Inl e \<Rightarrow> Inl e
                          | Inr counted \<Rightarrow>
                              Inr (\<lparr>status = 201, body = Like_body counted True\<rparr>, d'))) of
                 Inr r \<Rightarrow> r
               | Inl error \<Rightarrow>
                   if error_code error = Some ''P2002''
                   then (\<lparr>status = 400, body = Error_body msg_already_liked\<rparr>, d)
                   else (\<lparr>status = 500, body = Error_body msg_like_failed\<rparr>, d)))"

subsection \<open>DELETE /api/posts/:id/like\<close>

definition DELETE_api_posts_id_like ::
  "db \<Rightarrow> js_string \<Rightarrow> (string \<Rightarrow> jsval) \<Rightarrow> response \<times> db" where
  "DELETE_api_posts_id_like d params_id req_body =
     (let postId = parseInt params_id;
          userId = req_body ''userId''
      in if isNaN postId
         then (\<lparr>status = 400, body = Error_body msg_invalid_post_id\<rparr>, d)
         else if \<not> truthy userId
         then (\<lparr>status = 400, body = Error_body msg_userId_required\<rparr>, d)
         else (case (case like_deleteMany d postId userId of
                       Inl e \<Rightarrow> Inl e
                     | Inr d' \<Rightarrow>
                         (case like_count d' postId of
                            Inl e \<Rightarrow> Inl e
                          | Inr counted \<Rightarrow>
                              Inr (\<lparr>status = 200, body = Like_body counted False\<rparr>, d'))) of
                 Inr r \<Rightarrow> r
               | Inl error \<Rightarrow>
                   (\<lparr>status = 500, body = Error_body msg_unlike_failed\<rparr>, d)))"

section \<open>Sample data\<close>

text \<open>A request body without properties, two posts created in the same millisecond, one like.\<close>

definition empty_object :: "string \<Rightarrow> jsval" where
  "empty_object = (\<lambda>k. JUndefined)"

definition example_post :: "int \<Rightarrow> nat \<Rightarrow> post" where
  "example_post i t =
     \<lparr>post_id = i, post_content = js ''hello'', post_imageUrl = None, post_userId = None,
      post_createdAt = t, post_updatedAt = t\<rparr>"

definition example_db :: db where
  "example_db =
     \<lparr>posts = [example_post 1 1000, example_post 2 1000],
      likes = [\<lparr>like_id = 1, like_postId = 1, like_userId = js ''u1''\<rparr>],
      post_seq = 3, like_seq = 2, relation = ForeignKey Restrict\<rparr>"

section \<open>Notions used to state the properties\<close>

text \<open>A decimal digit, and a string that begins with \<^verbatim>\<open>0x\<close> or \<^verbatim>\<open>0X\<close>.\<close>

definition is_decimal_digit :: "nat \<Rightarrow> bool" where
  "is_decimal_digit c \<longleftrightarrow> 0x30 \<le> c \<and> c \<le> 0x39"

definition begins_with_0x :: "js_string \<Rightarrow> bool" where
  "begins_with_0x S \<longleftrightarrow> take 2 S = [0x30, 0x78] \<or> take 2 S = [0x30, 0x58]"

text \<open>The row that an element of the list response was made from.\<close>

definition post_of :: "formatted_post \<Rightarrow> post" where
  "post_of f =
     \<lparr>post_id = fp_id f, post_content = fp_content f, post_imageUrl = fp_imageUrl f,
      post_userId = fp_userId f, post_createdAt = fp_createdAt f,
      post_updatedAt = fp_updatedAt f\<rparr>"

text \<open>An environment in which only \<^verbatim>\<open>PORT\<close> is set.\<close>

definition env_with_PORT :: "js_string \<Rightarrow> process_env" where
  "env_with_PORT v = (\<lambda>k. if k = ''PORT'' then Some v else None)"


text \<open>Three posts, the first and the third created in the same millisecond.\<close>

definition timeline_db :: db where
  "timeline_db =
     \<lparr>posts = [example_post 1 1000, example_post 2 2000, example_post 3 1000],
      likes = [], post_seq = 4, like_seq = 1, relation = ForeignKey Restrict\<rparr>"


section \<open>Evaluation on literals\<close>

lemma js_simps: "js [] = []" "js (c # cs) = of_char c # js cs"
  by (simp_all add: js_def)

lemmas parse_defs = parseInt_def strip_sign_def strip_prefix_def is_js_whitespace_def
  is_radix_digit_def digit_value_def digits_value_def number_of_integer_def
  round_to_double_def

lemmas text_defs = storable_text_def storable_option_def is_high_surrogate_def
  is_low_surrogate_def

lemma filter_none_removed: "(\<forall>x \<in> set xs. P x) \<Longrightarrow> filter P xs = xs"
  by (induction xs) auto


section \<open>Creating a post\<close>

text \<open>
  C2. A create request whose \<open>content\<close> is missing or otherwise falsy (null, false, 0,
  the empty string), or is a string of white space only, is answered with status 400 and
  the message that asks for content, and the database is left as it was: no row is
  written.
\<close>

theorem create_blank_content_rejected:
  assumes "\<not> truthy (req_body ''content'')
           \<or> (\<exists>s. req_body ''content'' = JStr s \<and> trim s = [])"
  shows "POST_api_posts d now req_body =
           (\<lparr>status = 400, body = Error_body msg_content_required\<rparr>, d)"
  using assms by (auto simp: POST_api_posts_def)

theorem create_blank_content_rejected_witness:
  "POST_api_posts example_db 5 empty_object =
     (\<lparr>status = 400, body = Error_body msg_content_required\<rparr>, example_db)
   \<and> trim [0x20, 0x3000, 0x9] = []
   \<and> POST_api_posts example_db 5 (empty_object(''content'' := JStr [0x20, 0x3000, 0x9])) =
        (\<lparr>status = 400, body = Error_body msg_content_required\<rparr>, example_db)"
proof -
  have m: "\<not> truthy (empty_object ''content'')
           \<or> (\<exists>s. empty_object ''content'' = JStr s \<and> trim s = [])"
    by (simp add: empty_object_def)
  have t: "trim [0x20, 0x3000, 0x9] = []"
    by (simp add: trim_def is_js_whitespace_def)
  have w: "\<not> truthy ((empty_object(''content'' := JStr [0x20, 0x3000, 0x9])) ''content'')
        \<or> (\<exists>s. (empty_object(''content'' := JStr [0x20, 0x3000, 0x9])) ''content'' = JStr s
                \<and> trim s = [])"
    using t by simp
  from create_blank_content_rejected [of empty_object example_db 5, OF m]
    create_blank_content_rejected
      [of "empty_object(''content'' := JStr [0x20, 0x3000, 0x9])" example_db 5, OF w] t
  show ?thesis by simp
qed

text \<open>
  C9. A create request whose \<open>content\<close> is truthy but not a string (a number, \<open>true\<close>, an
  array, an object) is answered with status 500, not 400: the call of \<open>trim\<close> throws and
  the \<open>catch\<close> branch answers. The database is left as it was.
\<close>

theorem create_non_string_content_500:
  assumes "truthy (req_body ''content'')" and "\<forall>s. req_body ''content'' \<noteq> JStr s"
  shows "POST_api_posts d now req_body =
           (\<lparr>status = 500, body = Error_body msg_create_failed\<rparr>, d)"
  using assms by (cases "req_body ''content''") (auto simp: POST_api_posts_def)

theorem create_non_string_content_500_witness:
  "POST_api_posts example_db 5 (empty_object(''content'' := JNum 42)) =
        (\<lparr>status = 500, body = Error_body msg_create_failed\<rparr>, example_db)
   \<and> POST_api_posts example_db 5
         (empty_object(''content'' := JObj [(''text'', JStr (js ''hi''))])) =
        (\<lparr>status = 500, body = Error_body msg_create_failed\<rparr>, example_db)"
  using create_non_string_content_500 [of "empty_object(''content'' := JNum 42)" example_db 5]
    create_non_string_content_500
      [of "empty_object(''content'' := JObj [(''text'', JStr (js ''hi''))])" example_db 5]
  by simp


text \<open>What \<^verbatim>\<open>x || null\<close> stores for a value that is a string whenever it is truthy.\<close>

lemma nullable_text_or_null:
  assumes "truthy v \<longrightarrow> (\<exists>t. v = JStr t)"
  shows "nullable_text (or_null v) =
           Inr (case v of JStr t \<Rightarrow> if t = [] then None else Some t | _ \<Rightarrow> None)"
  using assms by (cases v) (auto simp: or_null_def)

lemma storable_or_null:
  assumes "truthy v \<longrightarrow> (\<exists>t. v = JStr t \<and> storable_text t)"
  shows "storable_option (case v of JStr t \<Rightarrow> if t = [] then None else Some t | _ \<Rightarrow> None)"
  using assms by (cases v) (auto simp: storable_option_def)

text \<open>
  C6, as amended. For a create request whose \<open>content\<close> is a string that is not blank
  after trimming, and whose \<open>imageUrl\<close> and \<open>userId\<close> are each absent, falsy or a
  string, where these texts are storable (no U+0000, no lone surrogate) and the id
  sequence has a 32-bit value left, the response is 201 with the created record, and
  that record is appended to the table. Its content is the trimmed input; \<open>imageUrl\<close>
  and \<open>userId\<close> are the supplied string when that string is not empty and null
  otherwise; the id is the next value of the sequence and both timestamps are the time
  of the insertion.
\<close>

theorem create_valid_post:
  assumes "req_body ''content'' = JStr s" and "trim s \<noteq> []" and "storable_text (trim s)"
    and "truthy (req_body ''imageUrl'') \<longrightarrow>
           (\<exists>t. req_body ''imageUrl'' = JStr t \<and> storable_text t)"
    and "truthy (req_body ''userId'') \<longrightarrow>
           (\<exists>t. req_body ''userId'' = JStr t \<and> storable_text t)"
    and "int4 (post_seq d)"
  shows "let p = \<lparr>post_id = post_seq d,
                  post_content = trim s,
                  post_imageUrl = (case req_body ''imageUrl'' of
                                     JStr t \<Rightarrow> if t = [] then None else Some t | _ \<Rightarrow> None),
                  post_userId = (case req_body ''userId'' of
                                   JStr t \<Rightarrow> if t = [] then None else Some t | _ \<Rightarrow> None),
                  post_createdAt = now, post_updatedAt = now\<rparr>
         in POST_api_posts d now req_body =
              (\<lparr>status = 201, body = Post_body p\<rparr>,
               d\<lparr>posts := posts d @ [p], post_seq := post_seq d + 1\<rparr>)"
proof -
  have s: "s \<noteq> []"
    using assms(2) by (auto simp: trim_def)
  have i: "truthy (req_body ''imageUrl'') \<longrightarrow> (\<exists>t. req_body ''imageUrl'' = JStr t)"
    and u: "truthy (req_body ''userId'') \<longrightarrow> (\<exists>t. req_body ''userId'' = JStr t)"
    using assms(4,5) by blast+
  show ?thesis
    using assms(1,2,3,6) s nullable_text_or_null [OF i] nullable_text_or_null [OF u]
      storable_or_null [OF assms(4)] storable_or_null [OF assms(5)]
    by (simp add: POST_api_posts_def post_create_def Let_def)
qed

theorem create_valid_post_witness:
  "POST_api_posts example_db 77
     (empty_object(''content'' := JStr (js '' hi ''), ''imageUrl'' := JStr (js ''a.png''))) =
     (\<lparr>status = 201,
       body = Post_body \<lparr>post_id = 3, post_content = js ''hi'',
                         post_imageUrl = Some (js ''a.png''), post_userId = None,
                         post_createdAt = 77, post_updatedAt = 77\<rparr>\<rparr>,
      example_db\<lparr>posts := posts example_db @
                    [\<lparr>post_id = 3, post_content = js ''hi'',
                      post_imageUrl = Some (js ''a.png''), post_userId = None,
                      post_createdAt = 77, post_updatedAt = 77\<rparr>],
                 post_seq := 4\<rparr>)"
proof -
  let ?b = "empty_object(''content'' := JStr (js '' hi ''), ''imageUrl'' := JStr (js ''a.png''))"
  have 1: "?b ''content'' = JStr (js '' hi '')" by simp
  have t: "trim (js '' hi '') = js ''hi''"
    by (simp add: js_simps trim_def is_js_whitespace_def)
  have 2: "trim (js '' hi '') \<noteq> []" unfolding t by (simp add: js_simps)
  have 3: "storable_text (trim (js '' hi ''))" unfolding t by (simp add: js_simps text_defs)
  have 4: "truthy (?b ''imageUrl'') \<longrightarrow> (\<exists>t. ?b ''imageUrl'' = JStr t \<and> storable_text t)"
    by (simp add: js_simps text_defs)
  have 5: "truthy (?b ''userId'') \<longrightarrow> (\<exists>t. ?b ''userId'' = JStr t \<and> storable_text t)"
    by (simp add: empty_object_def)
  have 6: "int4 (post_seq example_db)" by (simp add: example_db_def int4_def)
  have 7: "post_seq example_db = 3" by (simp add: example_db_def)
  have 8: "js ''a.png'' \<noteq> []" by (simp add: js_simps)
  from create_valid_post [of ?b "js '' hi ''" example_db 77, OF 1 2 3 4 5 6] t 7 8
  show ?thesis by (simp add: Let_def empty_object_def)
qed

text \<open>
  The claim as first stated promises the supplied value and status 201 for every
  non-blank content: an \<open>imageUrl\<close> that is supplied as the empty string is stored as
  null; a content with the code unit U+0000 cannot be stored and is answered 500, and
  so is every request once the id sequence is used up.
\<close>

theorem create_empty_imageUrl_counterexample:
  "(empty_object(''content'' := JStr (js ''hi''), ''imageUrl'' := JStr [])) ''imageUrl''
     = JStr []
   \<and> POST_api_posts example_db 77
       (empty_object(''content'' := JStr (js ''hi''), ''imageUrl'' := JStr [])) =
       (\<lparr>status = 201,
         body = Post_body \<lparr>post_id = 3, post_content = js ''hi'',
                           post_imageUrl = None, post_userId = None,
                           post_createdAt = 77, post_updatedAt = 77\<rparr>\<rparr>,
        example_db\<lparr>posts := posts example_db @
                      [\<lparr>post_id = 3, post_content = js ''hi'',
                        post_imageUrl = None, post_userId = None,
                        post_createdAt = 77, post_updatedAt = 77\<rparr>],
                   post_seq := 4\<rparr>)
   \<and> trim [0x61, 0, 0x62] = [0x61, 0, 0x62]
   \<and> POST_api_posts example_db 77 (empty_object(''content'' := JStr [0x61, 0, 0x62])) =
       (\<lparr>status = 500, body = Error_body msg_create_failed\<rparr>, example_db)
   \<and> POST_api_posts (example_db\<lparr>post_seq := 2147483648\<rparr>) 77
         (empty_object(''content'' := JStr (js ''hi''))) =
       (\<lparr>status = 500, body = Error_body msg_create_failed\<rparr>,
        example_db\<lparr>post_seq := 2147483648\<rparr>)"
  by (simp add: POST_api_posts_def post_create_def Let_def empty_object_def or_null_def
      example_db_def js_simps trim_def is_js_whitespace_def text_defs int4_def)


section \<open>Likes\<close>

text \<open>
  C3. Unlike is idempotent. For an id segment that \<open>parseInt\<close> reads and a non-empty
  string \<open>userId\<close> with no Like row for the pair, \<open>deleteMany\<close> removes nothing and
  raises nothing, the response is 200 with \<open>isLiked: false\<close> and with the number of Like
  rows of the post as \<open>likeCount\<close>, and the database (every Like row) is as before.
\<close>

theorem unlike_without_like_idempotent:
  assumes "parseInt params_id = Num postId"
    and "req_body ''userId'' = JStr u" and "u \<noteq> []"
    and "\<not> has_like d postId u"
  shows "like_deleteMany d (Num postId) (req_body ''userId'') = Inr d
         \<and> DELETE_api_posts_id_like d params_id req_body =
             (\<lparr>status = 200,
               body = Like_body (length (filter (\<lambda>l. like_postId l = postId) (likes d))) False\<rparr>,
              d)"
proof -
  have "filter (\<lambda>l. \<not> (like_postId l = postId \<and> like_userId l = u)) (likes d) = likes d"
    using assms(4) by (intro filter_none_removed) (auto simp: has_like_def)
  then have del: "like_deleteMany d (Num postId) (JStr u) = Inr d"
    by (simp add: like_deleteMany_def)
  then show ?thesis
    using assms(1-3) by (simp add: DELETE_api_posts_id_like_def like_count_def isNaN_def)
qed

theorem unlike_without_like_idempotent_witness:
  "like_deleteMany example_db (Num 1) (JStr (js ''u2'')) = Inr example_db
   \<and> DELETE_api_posts_id_like example_db (js ''1'')
        (empty_object(''userId'' := JStr (js ''u2''))) =
       (\<lparr>status = 200, body = Like_body 1 False\<rparr>, example_db)"
proof -
  have 1: "parseInt (js ''1'') = Num 1" by (simp add: js_simps parse_defs)
  have 2: "(empty_object(''userId'' := JStr (js ''u2''))) ''userId'' = JStr (js ''u2'')" by simp
  have 3: "js ''u2'' \<noteq> []" by (simp add: js_simps)
  have 4: "\<not> has_like example_db 1 (js ''u2'')"
    by (simp add: has_like_def example_db_def js_simps)
  have 5: "length (filter (\<lambda>l. like_postId l = 1) (likes example_db)) = 1"
    by (simp add: example_db_def)
  from unlike_without_like_idempotent
         [of "js ''1''" 1 "empty_object(''userId'' := JStr (js ''u2''))" "js ''u2''" example_db,
          OF 1 2 3 4] 5
  show ?thesis by simp
qed

lemma like_create_fresh:
  assumes "storable_text u"
    and "relation d \<noteq> NoForeignKey \<longrightarrow> has_post d postId" and "\<not> has_like d postId u"
  shows "like_create d (Num postId) (JStr u) =
           Inr (d\<lparr>likes := likes d @ [\<lparr>like_id = like_seq d, like_postId = postId,
                                        like_userId = u\<rparr>],
                  like_seq := like_seq d + 1\<rparr>)"
  using assms by (auto simp: like_create_def)

lemma like_create_duplicate:
  assumes "storable_text u" and "has_like d postId u"
  shows "like_create d (Num postId) (JStr u) = Inl (PrismaClientKnownRequestError ''P2002'')"
  using assms by (simp add: like_create_def)

text \<open>
  C1, as amended. Liking the same pair twice in sequence, for a pair that can be liked:
  the id segment is read by \<open>parseInt\<close> as a number, \<open>userId\<close> is a non-empty string of
  storable text, the post is there (where the store checks the reference), and the user
  has not liked the post yet. Then the first request is answered 201 with
  \<open>isLiked: true\<close> and a count one higher than before; the second is answered 400 with
  the "already liked" message (the store signals P2002) and leaves the database as the
  first left it: one Like row for the pair, and the same count.
\<close>

theorem like_twice:
  assumes "parseInt params_id = Num postId"
    and "req_body ''userId'' = JStr u" and "u \<noteq> []" and "storable_text u"
    and "relation d \<noteq> NoForeignKey \<longrightarrow> has_post d postId"
    and "\<not> has_like d postId u"
  shows "let n = length (filter (\<lambda>l. like_postId l = postId) (likes d));
             first = POST_api_posts_id_like d params_id req_body;
             second = POST_api_posts_id_like (snd first) params_id req_body
         in fst first = \<lparr>status = 201, body = Like_body (Suc n) True\<rparr>
            \<and> fst second = \<lparr>status = 400, body = Error_body msg_already_liked\<rparr>
            \<and> snd second = snd first
            \<and> length (filter (\<lambda>l. like_postId l = postId \<and> like_userId l = u)
                        (likes (snd second))) = 1
            \<and> length (filter (\<lambda>l. like_postId l = postId) (likes (snd second))) = Suc n"
proof -
  define d1 where
    "d1 = d\<lparr>likes := likes d @ [\<lparr>like_id = like_seq d, like_postId = postId,
                                  like_userId = u\<rparr>],
            like_seq := like_seq d + 1\<rparr>"
  have none: "filter (\<lambda>l. like_postId l = postId \<and> like_userId l = u) (likes d) = []"
    using assms(6) by (auto simp: has_like_def filter_empty_conv)
  have c1: "like_create d (Num postId) (JStr u) = Inr d1"
    unfolding d1_def by (rule like_create_fresh [OF assms(4,5,6)])
  have cnt: "like_count d1 (Num postId) =
               Inr (Suc (length (filter (\<lambda>l. like_postId l = postId) (likes d))))"
    by (simp add: like_count_def d1_def)
  have first: "POST_api_posts_id_like d params_id req_body =
                 (\<lparr>status = 201,
                   body = Like_body (Suc (length (filter (\<lambda>l. like_postId l = postId) (likes d))))
                            True\<rparr>, d1)"
    using assms(1-3) c1 cnt by (simp add: POST_api_posts_id_like_def isNaN_def)
  have "has_like d1 postId u"
    by (simp add: has_like_def d1_def)
  then have c2: "like_create d1 (Num postId) (JStr u) =
                   Inl (PrismaClientKnownRequestError ''P2002'')"
    by (rule like_create_duplicate [OF assms(4)])
  have second: "POST_api_posts_id_like d1 params_id req_body =
                  (\<lparr>status = 400, body = Error_body msg_already_liked\<rparr>, d1)"
    using assms(1-3) c2 by (simp add: POST_api_posts_id_like_def isNaN_def)
  have one: "length (filter (\<lambda>l. like_postId l = postId \<and> like_userId l = u) (likes d1)) = 1"
    using none by (simp add: d1_def)
  have all: "length (filter (\<lambda>l. like_postId l = postId) (likes d1)) =
               Suc (length (filter (\<lambda>l. like_postId l = postId) (likes d)))"
    by (simp add: d1_def)
  show ?thesis
    using first second one all by (simp add: Let_def)
qed

theorem like_twice_witness:
  "fst (POST_api_posts_id_like example_db (js ''2'') (empty_object(''userId'' := JStr (js ''u1''))))
     = \<lparr>status = 201, body = Like_body 1 True\<rparr>
   \<and> fst (POST_api_posts_id_like
            (snd (POST_api_posts_id_like example_db (js ''2'')
                    (empty_object(''userId'' := JStr (js ''u1'')))))
            (js ''2'') (empty_object(''userId'' := JStr (js ''u1''))))
     = \<lparr>status = 400, body = Error_body msg_already_liked\<rparr>"
proof -
  have 1: "parseInt (js ''2'') = Num 2" by (simp add: js_simps parse_defs)
  have 2: "(empty_object(''userId'' := JStr (js ''u1''))) ''userId'' = JStr (js ''u1'')" by simp
  have 3: "js ''u1'' \<noteq> []" by (simp add: js_simps)
  have 4: "storable_text (js ''u1'')" by (simp add: js_simps text_defs)
  have 5: "relation example_db \<noteq> NoForeignKey \<longrightarrow> has_post example_db 2"
    by (simp add: has_post_def example_db_def example_post_def)
  have 6: "\<not> has_like example_db 2 (js ''u1'')"
    by (simp add: has_like_def example_db_def js_simps)
  have 7: "length (filter (\<lambda>l. like_postId l = 2) (likes example_db)) = 0"
    by (simp add: example_db_def)
  from like_twice
         [of "js ''2''" 2 "empty_object(''userId'' := JStr (js ''u1''))" "js ''u1''" example_db,
          OF 1 2 3 4 5 6] 7
  show ?thesis by (simp add: Let_def)
qed

text \<open>
  The claim as first stated is about every pair. A like of a post that is not there is
  answered 500 when the store checks the reference (its error is P2003, not P2002),
  and nothing is inserted; so is a like whose \<open>userId\<close> holds the code unit U+0000.
\<close>

theorem like_missing_post_counterexample:
  "\<not> has_post example_db 9
   \<and> POST_api_posts_id_like example_db (js ''9'') (empty_object(''userId'' := JStr (js ''u1''))) =
       (\<lparr>status = 500, body = Error_body msg_like_failed\<rparr>, example_db)
   \<and> POST_api_posts_id_like example_db (js ''2'')
         (empty_object(''userId'' := JStr [0x75, 0, 0x31])) =
       (\<lparr>status = 500, body = Error_body msg_like_failed\<rparr>, example_db)"
proof -
  have 1: "parseInt (js ''9'') = Num 9" "parseInt (js ''2'') = Num 2"
    by (simp_all add: js_simps parse_defs)
  have 2: "storable_text (js ''u1'')" "\<not> storable_text [0x75, 0, 0x31]" "js ''u1'' \<noteq> []"
    by (simp_all add: js_simps text_defs)
  have 3: "\<not> has_post example_db 9" "\<not> has_like example_db 9 (js ''u1'')"
    "relation example_db \<noteq> NoForeignKey"
    by (simp_all add: has_post_def has_like_def example_db_def example_post_def)
  show ?thesis
    by (simp add: 1 2 3 POST_api_posts_id_like_def like_create_def isNaN_def)
qed

text \<open>The like endpoint stores no Like row with an empty \<open>userId\<close>.\<close>

lemma like_create_userId:
  assumes "like_create d n v = Inr d'" and "truthy v"
    and "\<forall>l \<in> set (likes d). like_userId l \<noteq> []"
  shows "\<forall>l \<in> set (likes d'). like_userId l \<noteq> []"
  using assms
  by (cases v; cases n) (auto simp: like_create_def split: if_splits)

lemma like_keeps_userIds_nonempty:
  assumes "\<forall>l \<in> set (likes d). like_userId l \<noteq> []"
  shows "\<forall>l \<in> set (likes (snd (POST_api_posts_id_like d params_id req_body))).
           like_userId l \<noteq> []"
proof (cases "isNaN (parseInt params_id) \<or> \<not> truthy (req_body ''userId'')")
  case True
  then show ?thesis
    using assms by (auto simp: POST_api_posts_id_like_def Let_def)
next
  case False
  show ?thesis
  proof (cases "like_create d (parseInt params_id) (req_body ''userId'')")
    case (Inl e)
    then show ?thesis
      using assms False by (simp add: POST_api_posts_id_like_def Let_def)
  next
    case (Inr d')
    from like_create_userId [OF Inr _ assms] False
    have "\<forall>l \<in> set (likes d'). like_userId l \<noteq> []" by simp
    with Inr False assms show ?thesis
      by (auto simp: POST_api_posts_id_like_def Let_def split: sum.splits)
  qed
qed


section \<open>Listing posts: the rows of the answer\<close>

lemma set_post_findMany: "set (post_findMany d ord) = set (posts d)"
  by (cases ord) (simp_all add: post_findMany_def orderBy_createdAt_def)

lemma mset_post_findMany: "mset (post_findMany d ord) = mset (posts d)"
  by (cases ord) (simp_all add: post_findMany_def orderBy_createdAt_def)

lemma post_of_format: "post_of (format_post userId (with_includes d who p)) = p"
  by (simp add: post_of_def format_post_def with_includes_def)

lemma GET_api_posts_ok:
  assumes "truthy userId \<longrightarrow> (\<exists>u. userId = JStr u)"
  shows "GET_api_posts d userId =
           \<lparr>status = 200,
            body = Formatted_posts_body
                     (map (\<lambda>p. format_post userId
                                 (with_includes d
                                    (case userId of JStr u \<Rightarrow> if u = [] then None else Some u
                                     | _ \<Rightarrow> None) p))
                          (post_findMany d Desc))\<rparr>"
  using assms by (cases userId) (auto simp: GET_api_posts_def post_findMany_include_def)

lemma GET_api_posts_rows:
  assumes "body (GET_api_posts d userId) = Formatted_posts_body fs"
  shows "map post_of fs = post_findMany d Desc"
  using assms
  by (auto simp: GET_api_posts_def post_findMany_include_def post_of_format comp_def
      split: if_splits sum.splits)

lemma GET_api_posts_ids:
  assumes "body (GET_api_posts d userId) = Formatted_posts_body fs"
  shows "fp_id ` set fs = post_id ` set (posts d)"
proof -
  have "map post_of fs = post_findMany d Desc"
    using assms by (rule GET_api_posts_rows)
  then have "set (map post_of fs) = set (posts d)"
    by (simp add: set_post_findMany)
  then have "post_id ` post_of ` set fs = post_id ` set (posts d)"
    by simp
  moreover have "post_id ` post_of ` set fs = fp_id ` set fs"
    by (auto simp: post_of_def image_iff)
  ultimately show ?thesis by simp
qed

section \<open>Deleting a post\<close>

lemma post_delete_missing:
  "int4 i \<Longrightarrow> \<not> has_post d i \<Longrightarrow>
   post_delete d (Num i) = Inl (PrismaClientKnownRequestError ''P2025'')"
  by (simp add: post_delete_def)

lemma post_delete_present:
  assumes "int4 i" and "has_post d i"
    and "relation d = ForeignKey Restrict \<longrightarrow> (\<forall>l \<in> set (likes d). like_postId l \<noteq> i)"
  shows "\<exists>d'. post_delete d (Num i) = Inr d'
              \<and> posts d' = filter (\<lambda>p. post_id p \<noteq> i) (posts d)"
  using assms
  by (auto simp: post_delete_def split: like_post_relation.splits referential_action.splits)

lemma post_delete_restricted:
  assumes "int4 i" and "has_post d i" and "relation d = ForeignKey Restrict"
    and "\<exists>l \<in> set (likes d). like_postId l = i"
  shows "post_delete d (Num i) = Inl (PrismaClientKnownRequestError ''P2003'')"
  using assms by (auto simp: post_delete_def)

lemma post_delete_out_of_range:
  assumes "n \<noteq> NaN" and "\<forall>i. n = Num i \<longrightarrow> \<not> int4 i"
  shows "post_delete d n = Inl OtherPrismaError"
  using assms by (cases n) (auto simp: post_delete_def)

text \<open>
  C7, as amended. Deleting a post. An id segment in which \<open>parseInt\<close> reads no number is
  answered 400 (a segment with a numeric prefix is read as that number). An id in the
  32-bit range of the id column that no row has is answered 404 (the store signals
  P2025) and nothing changes. An id that a row has is answered 200 with the
  confirmation message, the row is gone, and no later list response contains it,
  provided no Like row refers to the post or the store does not restrict the deletion;
  where it restricts and a Like row refers to the post, the answer is 500 and nothing
  changes. An id outside the range of the column is answered 500.
\<close>

theorem delete_post_statuses:
  "(parseInt params_id = NaN \<longrightarrow>
      DELETE_api_posts_id d params_id =
        (\<lparr>status = 400, body = Error_body msg_invalid_id\<rparr>, d))
   \<and> (\<forall>i. parseInt params_id = Num i \<and> int4 i \<and> \<not> has_post d i \<longrightarrow>
          DELETE_api_posts_id d params_id =
            (\<lparr>status = 404, body = Error_body msg_not_found\<rparr>, d))
   \<and> (\<forall>i. parseInt params_id = Num i \<and> int4 i \<and> has_post d i
            \<and> (relation d = ForeignKey Restrict \<longrightarrow> (\<forall>l \<in> set (likes d). like_postId l \<noteq> i)) \<longrightarrow>
          fst (DELETE_api_posts_id d params_id) =
            \<lparr>status = 200, body = Message_body msg_deleted\<rparr>
          \<and> \<not> has_post (snd (DELETE_api_posts_id d params_id)) i
          \<and> (\<forall>userId fs.
                body (GET_api_posts (snd (DELETE_api_posts_id d params_id)) userId) =
                  Formatted_posts_body fs
                \<longrightarrow> i \<notin> fp_id ` set fs))
   \<and> (\<forall>i. parseInt params_id = Num i \<and> int4 i \<and> has_post d i
            \<and> relation d = ForeignKey Restrict \<and> (\<exists>l \<in> set (likes d). like_postId l = i) \<longrightarrow>
          DELETE_api_posts_id d params_id =
            (\<lparr>status = 500, body = Error_body msg_delete_failed\<rparr>, d))
   \<and> (parseInt params_id \<noteq> NaN \<and> (\<forall>i. parseInt params_id = Num i \<longrightarrow> \<not> int4 i) \<longrightarrow>
          DELETE_api_posts_id d params_id =
            (\<lparr>status = 500, body = Error_body msg_delete_failed\<rparr>, d))"
proof (intro conjI allI impI)
  assume "parseInt params_id = NaN"
  then show "DELETE_api_posts_id d params_id =
               (\<lparr>status = 400, body = Error_body msg_invalid_id\<rparr>, d)"
    by (simp add: DELETE_api_posts_id_def isNaN_def)
next
  fix i
  assume "parseInt params_id = Num i \<and> int4 i \<and> \<not> has_post d i"
  then show "DELETE_api_posts_id d params_id =
               (\<lparr>status = 404, body = Error_body msg_not_found\<rparr>, d)"
    by (simp add: DELETE_api_posts_id_def isNaN_def post_delete_missing)
next
  fix i
  assume a: "parseInt params_id = Num i \<and> int4 i \<and> has_post d i
            \<and> (relation d = ForeignKey Restrict \<longrightarrow> (\<forall>l \<in> set (likes d). like_postId l \<noteq> i))"
  then obtain d' where d': "post_delete d (Num i) = Inr d'"
    and ps: "posts d' = filter (\<lambda>p. post_id p \<noteq> i) (posts d)"
    using post_delete_present [of i d] by blast
  have r: "DELETE_api_posts_id d params_id =
             (\<lparr>status = 200, body = Message_body msg_deleted\<rparr>, d')"
    using a d' by (simp add: DELETE_api_posts_id_def isNaN_def)
  show "fst (DELETE_api_posts_id d params_id) =
          \<lparr>status = 200, body = Message_body msg_deleted\<rparr>"
    by (simp add: r)
  show "\<not> has_post (snd (DELETE_api_posts_id d params_id)) i"
    by (auto simp: r has_post_def ps)
  fix userId fs
  assume "body (GET_api_posts (snd (DELETE_api_posts_id d params_id)) userId) =
            Formatted_posts_body fs"
  then have "body (GET_api_posts d' userId) = Formatted_posts_body fs"
    by (simp add: r)
  then have "fp_id ` set fs = post_id ` set (posts d')"
    by (rule GET_api_posts_ids)
  then show "i \<notin> fp_id ` set fs"
    by (auto simp: ps)
next
  fix i
  assume "parseInt params_id = Num i \<and> int4 i \<and> has_post d i
          \<and> relation d = ForeignKey Restrict \<and> (\<exists>l \<in> set (likes d). like_postId l = i)"
  then show "DELETE_api_posts_id d params_id =
               (\<lparr>status = 500, body = Error_body msg_delete_failed\<rparr>, d)"
    using post_delete_restricted [of i d]
    by (simp add: DELETE_api_posts_id_def isNaN_def)
next
  assume "parseInt params_id \<noteq> NaN \<and> (\<forall>i. parseInt params_id = Num i \<longrightarrow> \<not> int4 i)"
  then show "DELETE_api_posts_id d params_id =
               (\<lparr>status = 500, body = Error_body msg_delete_failed\<rparr>, d)"
    using post_delete_out_of_range [of "parseInt params_id" d]
    by (simp add: DELETE_api_posts_id_def isNaN_def)
qed

theorem delete_post_statuses_witness:
  "DELETE_api_posts_id example_db (js ''abc'') =
     (\<lparr>status = 400, body = Error_body msg_invalid_id\<rparr>, example_db)
   \<and> DELETE_api_posts_id example_db (js ''9'') =
       (\<lparr>status = 404, body = Error_body msg_not_found\<rparr>, example_db)
   \<and> fst (DELETE_api_posts_id example_db (js ''2'')) =
       \<lparr>status = 200, body = Message_body msg_deleted\<rparr>
   \<and> \<not> has_post (snd (DELETE_api_posts_id example_db (js ''2''))) 2"
proof -
  have 1: "parseInt (js ''abc'') = NaN" by (simp add: js_simps parse_defs)
  have 2: "parseInt (js ''9'') = Num 9 \<and> int4 9 \<and> \<not> has_post example_db 9"
    by (simp add: js_simps parse_defs int4_def has_post_def example_db_def example_post_def)
  have 3: "parseInt (js ''2'') = Num 2 \<and> int4 2 \<and> has_post example_db 2
           \<and> (relation example_db = ForeignKey Restrict \<longrightarrow>
                 (\<forall>l \<in> set (likes example_db). like_postId l \<noteq> 2))"
    by (simp add: js_simps parse_defs int4_def has_post_def example_db_def example_post_def)
  from delete_post_statuses [of "js ''abc''" example_db] 1
  have a: "DELETE_api_posts_id example_db (js ''abc'') =
             (\<lparr>status = 400, body = Error_body msg_invalid_id\<rparr>, example_db)"
    by blast
  from delete_post_statuses [of "js ''9''" example_db] 2
  have b: "DELETE_api_posts_id example_db (js ''9'') =
             (\<lparr>status = 404, body = Error_body msg_not_found\<rparr>, example_db)"
    by blast
  from delete_post_statuses [of "js ''2''" example_db] 3
  have c: "fst (DELETE_api_posts_id example_db (js ''2'')) =
             \<lparr>status = 200, body = Message_body msg_deleted\<rparr>
           \<and> \<not> has_post (snd (DELETE_api_posts_id example_db (js ''2''))) 2"
    by blast
  from a b c show ?thesis by blast
qed

text \<open>
  The claim as first stated answers 200 for every existing post, 404 for every absent
  numeric id and 400 for every non-numeric id. Post 1 of the sample database has a like
  and the store restricts: the answer is 500 and the post stays. The absent id
  2147483648 is beyond the id column: 500. The segment \<^verbatim>\<open>12abc\<close> is no number, yet it
  is read as 12 and answered 404.
\<close>

theorem delete_liked_post_counterexample:
  "has_post example_db 1
   \<and> DELETE_api_posts_id example_db (js ''1'') =
       (\<lparr>status = 500, body = Error_body msg_delete_failed\<rparr>, example_db)
   \<and> \<not> has_post example_db 2147483648
   \<and> DELETE_api_posts_id example_db (js ''2147483648'') =
       (\<lparr>status = 500, body = Error_body msg_delete_failed\<rparr>, example_db)
   \<and> DELETE_api_posts_id example_db (js ''12abc'') =
       (\<lparr>status = 404, body = Error_body msg_not_found\<rparr>, example_db)"
proof -
  have 1: "parseInt (js ''1'') = Num 1" "parseInt (js ''2147483648'') = Num 2147483648"
    "parseInt (js ''12abc'') = Num 12"
    by (simp_all add: js_simps parse_defs)
  have 2: "has_post example_db 1" "\<not> has_post example_db 2147483648"
    "\<not> has_post example_db 12" "relation example_db = ForeignKey Restrict"
    "\<exists>l \<in> set (likes example_db). like_postId l = 1"
    by (simp_all add: has_post_def example_db_def example_post_def)
  show ?thesis
    by (simp add: 1 2 DELETE_api_posts_id_def isNaN_def post_delete_def int4_def)
qed


section \<open>Id segments that begin with digits\<close>

lemma round_to_double_exact:
  assumes "m \<le> 2 ^ 53"
  shows "round_to_double m = Some m"
proof (cases "m < 2 ^ 53")
  case True
  then show ?thesis by (simp add: round_to_double_def)
next
  case False
  with assms have "m = 9007199254740992" by simp
  then show ?thesis
    by (simp add: round_to_double_def bit_length.simps Let_def)
qed

lemma number_of_integer_not_NaN: "number_of_integer sign m \<noteq> NaN"
  by (simp add: number_of_integer_def split: option.splits)

lemma radix10_digit: "is_radix_digit 10 c \<longleftrightarrow> is_decimal_digit c"
  by (auto simp: is_radix_digit_def digit_value_def is_decimal_digit_def)

lemma decimal_digit_not_whitespace: "is_decimal_digit c \<Longrightarrow> \<not> is_js_whitespace c"
  by (auto simp: is_decimal_digit_def is_js_whitespace_def)

lemma strip_sign_digit: "is_decimal_digit c \<Longrightarrow> strip_sign (c # S) = (1, c # S)"
  by (auto simp: strip_sign_def is_decimal_digit_def)

lemma strip_prefix_decimal: "\<not> begins_with_0x S \<Longrightarrow> strip_prefix S = (10, S)"
  by (auto simp: strip_prefix_def begins_with_0x_def split: list.splits)

lemma takeWhile_digits:
  assumes "\<forall>c \<in> set ds. is_decimal_digit c" and "rest = [] \<or> \<not> is_decimal_digit (hd rest)"
  shows "takeWhile (is_radix_digit 10) (ds @ rest) = ds"
proof -
  have "takeWhile (is_radix_digit 10) rest = []"
    using assms(2) by (cases rest) (auto simp: radix10_digit)
  moreover have "takeWhile (is_radix_digit 10) (ds @ rest) = ds @ takeWhile (is_radix_digit 10) rest"
    using assms(1) by (intro takeWhile_append2) (simp add: radix10_digit)
  ultimately show ?thesis by simp
qed

lemma parseInt_decimal_prefix:
  assumes "ds \<noteq> []" and "\<forall>c \<in> set ds. is_decimal_digit c"
    and "rest = [] \<or> \<not> is_decimal_digit (hd rest)"
    and "\<not> begins_with_0x (ds @ rest)"
  shows "parseInt (ds @ rest) = number_of_integer 1 (digits_value 10 ds)"
proof -
  obtain c ds' where ds: "ds = c # ds'"
    using assms(1) by (cases ds) auto
  have c: "is_decimal_digit c"
    using assms(2) ds by simp
  have 1: "dropWhile is_js_whitespace (ds @ rest) = ds @ rest"
    using decimal_digit_not_whitespace [OF c] by (simp add: ds)
  have 2: "strip_sign (ds @ rest) = (1, ds @ rest)"
    using strip_sign_digit [OF c] by (simp add: ds)
  have 3: "strip_prefix (ds @ rest) = (10, ds @ rest)"
    by (rule strip_prefix_decimal [OF assms(4)])
  have 4: "takeWhile (is_radix_digit 10) (ds @ rest) = ds"
    by (rule takeWhile_digits [OF assms(2,3)])
  show ?thesis
    unfolding parseInt_def 1 2 using assms(1) by (simp add: 3 4)
qed

lemma digits_not_0x:
  assumes "\<forall>c \<in> set ds. is_decimal_digit c"
  shows "\<not> begins_with_0x ds"
proof (cases ds)
  case Nil
  then show ?thesis by (simp add: begins_with_0x_def)
next
  case (Cons a as)
  then show ?thesis
    using assms by (cases as) (auto simp: begins_with_0x_def is_decimal_digit_def)
qed

text \<open>
  C10, as amended. An id segment that starts with decimal digits, goes on with a
  character that is not a decimal digit, and does not begin with \<^verbatim>\<open>0x\<close> or \<^verbatim>\<open>0X\<close>:
  \<open>parseInt\<close> yields the Number for the value of the digits, which is that value itself
  up to \<open>2^53\<close> and the nearest double beyond; it is never NaN, so none of the three
  handlers answers with its "invalid id" response, and each handles the request exactly
  as it handles the request whose segment is the digits alone.
\<close>

theorem digits_then_text_id:
  assumes "ds \<noteq> []" and "\<forall>c \<in> set ds. is_decimal_digit c"
    and "rest \<noteq> []" and "\<not> is_decimal_digit (hd rest)"
    and "\<not> begins_with_0x (ds @ rest)"
  shows "parseInt (ds @ rest) = number_of_integer 1 (digits_value 10 ds)
         \<and> (digits_value 10 ds \<le> 2 ^ 53 \<longrightarrow>
              parseInt (ds @ rest) = Num (int (digits_value 10 ds)))
         \<and> parseInt (ds @ rest) \<noteq> NaN
         \<and> fst (DELETE_api_posts_id d (ds @ rest)) \<noteq>
             \<lparr>status = 400, body = Error_body msg_invalid_id\<rparr>
         \<and> fst (POST_api_posts_id_like d (ds @ rest) req_body) \<noteq>
             \<lparr>status = 400, body = Error_body msg_invalid_post_id\<rparr>
         \<and> fst (DELETE_api_posts_id_like d (ds @ rest) req_body) \<noteq>
             \<lparr>status = 400, body = Error_body msg_invalid_post_id\<rparr>
         \<and> DELETE_api_posts_id d (ds @ rest) = DELETE_api_posts_id d ds
         \<and> POST_api_posts_id_like d (ds @ rest) req_body = POST_api_posts_id_like d ds req_body
         \<and> DELETE_api_posts_id_like d (ds @ rest) req_body =
             DELETE_api_posts_id_like d ds req_body"
proof -
  have p: "parseInt (ds @ rest) = number_of_integer 1 (digits_value 10 ds)"
    using assms by (intro parseInt_decimal_prefix) auto
  have "parseInt (ds @ []) = number_of_integer 1 (digits_value 10 ds)"
    using assms(1,2) digits_not_0x [OF assms(2)] by (intro parseInt_decimal_prefix) auto
  then have q: "parseInt ds = parseInt (ds @ rest)"
    using p by simp
  have n: "\<not> isNaN (parseInt (ds @ rest))"
    by (simp add: p isNaN_def number_of_integer_not_NaN)
  have x: "digits_value 10 ds \<le> 2 ^ 53 \<longrightarrow>
             parseInt (ds @ rest) = Num (int (digits_value 10 ds))"
    by (simp add: p number_of_integer_def round_to_double_exact)
  have m1: "msg_invalid_id \<noteq> msg_not_found" "msg_invalid_id \<noteq> msg_delete_failed"
    by (simp_all add: msg_invalid_id_def msg_not_found_def msg_delete_failed_def)
  have m2: "msg_invalid_post_id \<noteq> msg_userId_required"
    "msg_invalid_post_id \<noteq> msg_already_liked" "msg_invalid_post_id \<noteq> msg_like_failed"
    "msg_invalid_post_id \<noteq> msg_unlike_failed"
    by (simp_all add: msg_invalid_post_id_def msg_userId_required_def msg_already_liked_def
        msg_like_failed_def msg_unlike_failed_def)
  have a: "fst (DELETE_api_posts_id d (ds @ rest)) \<noteq>
             \<lparr>status = 400, body = Error_body msg_invalid_id\<rparr>"
    using m1 n by (simp add: DELETE_api_posts_id_def Let_def split: sum.splits)
  have b: "fst (POST_api_posts_id_like d (ds @ rest) req_body) \<noteq>
             \<lparr>status = 400, body = Error_body msg_invalid_post_id\<rparr>"
    using m2 n by (simp add: POST_api_posts_id_like_def Let_def split: sum.splits)
  have c: "fst (DELETE_api_posts_id_like d (ds @ rest) req_body) \<noteq>
             \<lparr>status = 400, body = Error_body msg_invalid_post_id\<rparr>"
    using m2 n by (simp add: DELETE_api_posts_id_like_def Let_def split: sum.splits)
  have e: "DELETE_api_posts_id d (ds @ rest) = DELETE_api_posts_id d ds"
    by (simp add: DELETE_api_posts_id_def q)
  have f: "POST_api_posts_id_like d (ds @ rest) req_body = POST_api_posts_id_like d ds req_body"
    by (simp add: POST_api_posts_id_like_def q)
  have g: "DELETE_api_posts_id_like d (ds @ rest) req_body =
             DELETE_api_posts_id_like d ds req_body"
    by (simp add: DELETE_api_posts_id_like_def q)
  have nn: "parseInt (ds @ rest) \<noteq> NaN"
    using n by (simp add: isNaN_def)
  from p x nn a b c e f g show ?thesis by blast
qed

theorem digits_then_text_id_witness:
  "parseInt (js ''12abc'') = Num 12
   \<and> DELETE_api_posts_id example_db (js ''12abc'') = DELETE_api_posts_id example_db (js ''12'')
   \<and> fst (DELETE_api_posts_id example_db (js ''12abc'')) \<noteq>
       \<lparr>status = 400, body = Error_body msg_invalid_id\<rparr>"
proof -
  have 0: "js ''12abc'' = js ''12'' @ js ''abc''" by (simp add: js_simps)
  have 1: "js ''12'' \<noteq> []" by (simp add: js_simps)
  have 2: "\<forall>c \<in> set (js ''12''). is_decimal_digit c"
    by (simp add: js_simps is_decimal_digit_def)
  have 3: "js ''abc'' \<noteq> []" by (simp add: js_simps)
  have 4: "\<not> is_decimal_digit (hd (js ''abc''))"
    by (simp add: js_simps is_decimal_digit_def)
  have 5: "\<not> begins_with_0x (js ''12'' @ js ''abc'')"
    by (simp add: js_simps begins_with_0x_def)
  have 6: "digits_value 10 (js ''12'') = 12"
    by (simp add: js_simps digits_value_def digit_value_def)
  from digits_then_text_id [of "js ''12''" "js ''abc''" example_db empty_object, OF 1 2 3 4 5]
  show ?thesis unfolding 0 6 by auto
qed

text \<open>
  The claim as first stated covers every segment of digits followed by other characters.
  \<^verbatim>\<open>0xzz\<close> is one, and all three handlers answer it with 400: after the prefix
  \<^verbatim>\<open>0x\<close> no hexadecimal digit follows. \<^verbatim>\<open>0x1f\<close> is read as 31, not as its decimal
  prefix 0, and \<^verbatim>\<open>9007199254740993abc\<close> as 9007199254740992. And a like request with a
  good segment is still answered 400 when it has no \<open>userId\<close>.
\<close>

theorem hex_prefix_id_counterexample:
  "parseInt (js ''0xzz'') = NaN
   \<and> DELETE_api_posts_id example_db (js ''0xzz'') =
       (\<lparr>status = 400, body = Error_body msg_invalid_id\<rparr>, example_db)
   \<and> POST_api_posts_id_like example_db (js ''0xzz'') (empty_object(''userId'' := JStr (js ''u1''))) =
       (\<lparr>status = 400, body = Error_body msg_invalid_post_id\<rparr>, example_db)
   \<and> DELETE_api_posts_id_like example_db (js ''0xzz'') (empty_object(''userId'' := JStr (js ''u1''))) =
       (\<lparr>status = 400, body = Error_body msg_invalid_post_id\<rparr>, example_db)
   \<and> parseInt (js ''0x1f'') = Num 31
   \<and> parseInt (js ''9007199254740993abc'') = Num 9007199254740992
   \<and> POST_api_posts_id_like example_db (js ''12abc'') empty_object =
       (\<lparr>status = 400, body = Error_body msg_userId_required\<rparr>, example_db)"
proof -
  have 1: "parseInt (js ''0xzz'') = NaN" by (simp add: js_simps parse_defs)
  have 2: "parseInt (js ''0x1f'') = Num 31" by (simp add: js_simps parse_defs)
  have 3: "parseInt (js ''12abc'') = Num 12" by (simp add: js_simps parse_defs)
  have 4: "parseInt (js ''9007199254740993abc'') = Num 9007199254740992"
    by (simp add: js_simps parse_defs bit_length.simps Let_def)
  show ?thesis
    by (simp add: 1 2 3 4 DELETE_api_posts_id_def POST_api_posts_id_like_def
        DELETE_api_posts_id_like_def empty_object_def isNaN_def)
qed


section \<open>Listing posts: order and like fields\<close>

text \<open>
  A stable sort of rows whose ids increase puts rows of equal key in the order of
  their ids.
\<close>

lemma insort_key_ties:
  fixes k :: "post \<Rightarrow> int"
  assumes "sorted_wrt (\<lambda>a b. k a < k b \<or> (k a = k b \<and> post_id a < post_id b)) ys"
    and "\<forall>y \<in> set ys. post_id x < post_id y"
  shows "sorted_wrt (\<lambda>a b. k a < k b \<or> (k a = k b \<and> post_id a < post_id b))
           (insort_key k x ys)"
  using assms
proof (induction ys)
  case Nil
  then show ?case by simp
next
  case (Cons y ys)
  show ?case
  proof (cases "k x \<le> k y")
    case True
    have "k x < k z \<or> (k x = k z \<and> post_id x < post_id z)" if "z \<in> set (y # ys)" for z
    proof -
      have "k y \<le> k z"
        using Cons.prems(1) that by auto
      moreover have "post_id x < post_id z"
        using Cons.prems(2) that by auto
      ultimately show ?thesis
        using True by auto
    qed
    then show ?thesis
      using True Cons.prems(1) by simp
  next
    case False
    have "sorted_wrt (\<lambda>a b. k a < k b \<or> (k a = k b \<and> post_id a < post_id b))
            (insort_key k x ys)"
      using Cons.IH Cons.prems by simp
    moreover have "k y < k z \<or> (k y = k z \<and> post_id y < post_id z)"
      if "z \<in> set (insort_key k x ys)" for z
      using that False Cons.prems(1) by (auto simp: set_insort_key)
    ultimately show ?thesis
      using False by simp
  qed
qed

lemma sort_key_ties:
  fixes k :: "post \<Rightarrow> int"
  assumes "sorted_wrt (\<lambda>a b. post_id a < post_id b) xs"
  shows "sorted_wrt (\<lambda>a b. k a < k b \<or> (k a = k b \<and> post_id a < post_id b)) (sort_key k xs)"
  using assms
proof (induction xs)
  case Nil
  then show ?case by simp
next
  case (Cons x xs)
  then show ?case
    by (simp add: sort_key_simps) (rule insort_key_ties, simp_all)
qed

lemma post_findMany_Desc_sorted:
  "sorted_wrt (\<lambda>a b. post_createdAt b \<le> post_createdAt a) (post_findMany d Desc)"
proof -
  have "sorted (map (\<lambda>p. - int (post_createdAt p))
                  (sort_key (\<lambda>p. - int (post_createdAt p)) (posts d)))"
    by (rule sorted_sort_key)
  then show ?thesis
    by (simp add: post_findMany_def orderBy_createdAt_def sorted_wrt_map)
qed

lemma post_findMany_Desc_stable:
  "filter (\<lambda>p. post_createdAt p = t) (post_findMany d Desc) =
   filter (\<lambda>p. post_createdAt p = t) (posts d)"
  using sort_key_stable [of "\<lambda>p. - int (post_createdAt p)" "- int t" "posts d"]
  by (simp add: post_findMany_def orderBy_createdAt_def)

lemma post_findMany_Desc_ties:
  assumes "sorted_wrt (\<lambda>a b. post_id a < post_id b) (posts d)"
  shows "sorted_wrt (\<lambda>a b. post_createdAt b < post_createdAt a
                          \<or> (post_createdAt a = post_createdAt b \<and> post_id a < post_id b))
           (post_findMany d Desc)"
  using sort_key_ties [OF assms, of "\<lambda>p. - int (post_createdAt p)"]
  by (simp add: post_findMany_def orderBy_createdAt_def)

text \<open>
  C4. For a \<open>userId\<close> parameter that is absent, empty or a string of storable text, the
  list response is 200 and holds every post of the table exactly once, ordered by
  \<open>createdAt\<close> descending;
  posts whose \<open>createdAt\<close> collide keep their insertion order, which is the order of
  their ids in a table whose ids grow with insertion. The revision \<^verbatim>\<open>part_000\<close> sends
  the same rows in the same order.
\<close>

theorem list_posts_order:
  assumes "truthy userId \<longrightarrow> (\<exists>u. userId = JStr u \<and> storable_text u)"
  shows "\<exists>fs. GET_api_posts d userId = \<lparr>status = 200, body = Formatted_posts_body fs\<rparr>
              \<and> mset (map post_of fs) = mset (posts d)
              \<and> sorted_wrt (\<lambda>a b. fp_createdAt b \<le> fp_createdAt a) fs
              \<and> (\<forall>t. filter (\<lambda>p. post_createdAt p = t) (map post_of fs) =
                       filter (\<lambda>p. post_createdAt p = t) (posts d))
              \<and> (sorted_wrt (\<lambda>a b. post_id a < post_id b) (posts d) \<longrightarrow>
                    sorted_wrt (\<lambda>a b. fp_createdAt b < fp_createdAt a
                                     \<or> (fp_createdAt a = fp_createdAt b \<and> fp_id a < fp_id b)) fs)
              \<and> GET_api_posts_part_000 d =
                  \<lparr>status = 200, body = Posts_body (map post_of fs)\<rparr>"
proof -
  let ?who = "case userId of JStr u \<Rightarrow> if u = [] then None else Some u | _ \<Rightarrow> None"
  let ?fmt = "\<lambda>p. format_post userId (with_includes d ?who p)"
  let ?fs = "map ?fmt (post_findMany d Desc)"
  have f: "fp_createdAt (?fmt p) = post_createdAt p" "fp_id (?fmt p) = post_id p" for p
    by (simp_all add: format_post_def with_includes_def)
  have u: "truthy userId \<longrightarrow> (\<exists>u. userId = JStr u)"
    using assms by blast
  have 1: "GET_api_posts d userId = \<lparr>status = 200, body = Formatted_posts_body ?fs\<rparr>"
    by (rule GET_api_posts_ok [OF u])
  have 2: "map post_of ?fs = post_findMany d Desc"
    by (simp add: post_of_format comp_def)
  have 3: "mset (map post_of ?fs) = mset (posts d)"
    unfolding 2 by (rule mset_post_findMany)
  have 4: "sorted_wrt (\<lambda>a b. fp_createdAt b \<le> fp_createdAt a) ?fs"
    using post_findMany_Desc_sorted [of d] by (simp add: sorted_wrt_map f)
  have 5: "\<forall>t. filter (\<lambda>p. post_createdAt p = t) (map post_of ?fs) =
               filter (\<lambda>p. post_createdAt p = t) (posts d)"
    unfolding 2 by (simp add: post_findMany_Desc_stable)
  have 6: "sorted_wrt (\<lambda>a b. post_id a < post_id b) (posts d) \<longrightarrow>
             sorted_wrt (\<lambda>a b. fp_createdAt b < fp_createdAt a
                              \<or> (fp_createdAt a = fp_createdAt b \<and> fp_id a < fp_id b)) ?fs"
    using post_findMany_Desc_ties [of d] by (simp add: sorted_wrt_map f)
  have 7: "GET_api_posts_part_000 d = \<lparr>status = 200, body = Posts_body (map post_of ?fs)\<rparr>"
    unfolding 2 by (simp add: GET_api_posts_part_000_def)
  from 1 3 4 5 6 7 show ?thesis by blast
qed

theorem list_posts_order_witness:
  "\<exists>fs. GET_api_posts timeline_db JUndefined =
          \<lparr>status = 200, body = Formatted_posts_body fs\<rparr>
        \<and> map post_of fs = [example_post 2 2000, example_post 1 1000, example_post 3 1000]"
proof -
  have h: "truthy JUndefined \<longrightarrow> (\<exists>u. JUndefined = JStr u \<and> storable_text u)" by simp
  from list_posts_order [of JUndefined timeline_db, OF h]
  obtain fs where g: "GET_api_posts timeline_db JUndefined =
                        \<lparr>status = 200, body = Formatted_posts_body fs\<rparr>"
    and p: "GET_api_posts_part_000 timeline_db =
              \<lparr>status = 200, body = Posts_body (map post_of fs)\<rparr>"
    by blast
  have "GET_api_posts_part_000 timeline_db =
          \<lparr>status = 200,
           body = Posts_body [example_post 2 2000, example_post 1 1000, example_post 3 1000]\<rparr>"
    by (simp add: GET_api_posts_part_000_def post_findMany_def orderBy_createdAt_def
        timeline_db_def example_post_def)
  with p have m: "map post_of fs =
                    [example_post 2 2000, example_post 1 1000, example_post 3 1000]"
    by simp
  from g m show ?thesis by (intro exI [of _ fs] conjI)
qed

lemma post_likes_where_nonempty:
  "post_likes_where d p u \<noteq> [] \<longleftrightarrow> has_like d (post_id p) u"
  by (auto simp: post_likes_where_def has_like_def filter_empty_conv)

text \<open>
  C5. For a \<open>userId\<close> parameter that is absent, empty or a string, the list response is
  200 with one element per row, and in every element \<open>likeCount\<close> is the number of
  Like rows of that post and \<open>isLiked\<close> holds exactly when a non-empty \<open>userId\<close> was
  given and a Like row for the post and that user is there; without a \<open>userId\<close> it is
  false everywhere. In a database without Like rows of an empty \<open>userId\<close> (the like
  endpoint creates none) the condition "non-empty" can be dropped.
\<close>

theorem list_posts_like_fields:
  assumes "truthy userId \<longrightarrow> (\<exists>u. userId = JStr u)"
  shows "\<exists>fs. GET_api_posts d userId = \<lparr>status = 200, body = Formatted_posts_body fs\<rparr>
              \<and> map post_of fs = post_findMany d Desc
              \<and> mset (map post_of fs) = mset (posts d)
              \<and> (\<forall>f \<in> set fs.
                    likeCount f = length (filter (\<lambda>l. like_postId l = fp_id f) (likes d))
                    \<and> (isLiked f \<longleftrightarrow> (\<exists>u. userId = JStr u \<and> u \<noteq> [] \<and> has_like d (fp_id f) u))
                    \<and> (userId = JUndefined \<longrightarrow> \<not> isLiked f)
                    \<and> ((\<forall>l \<in> set (likes d). like_userId l \<noteq> []) \<longrightarrow>
                          (isLiked f \<longleftrightarrow> (\<exists>u. userId = JStr u \<and> has_like d (fp_id f) u))))"
proof -
  let ?who = "case userId of JStr u \<Rightarrow> if u = [] then None else Some u | _ \<Rightarrow> None"
  let ?fmt = "\<lambda>p. format_post userId (with_includes d ?who p)"
  let ?rows = "post_findMany d Desc"
  have 1: "GET_api_posts d userId =
             \<lparr>status = 200, body = Formatted_posts_body (map ?fmt ?rows)\<rparr>"
    by (rule GET_api_posts_ok [OF assms])
  have 2: "map post_of (map ?fmt ?rows) = ?rows"
    by (simp add: post_of_format comp_def)
  have ms: "mset (map post_of (map ?fmt ?rows)) = mset (posts d)"
    unfolding 2 by (rule mset_post_findMany)
  have cnt: "likeCount (?fmt p) = length (filter (\<lambda>l. like_postId l = fp_id (?fmt p)) (likes d))"
    for p
    by (simp add: format_post_def with_includes_def)
  have liked: "isLiked (?fmt p) \<longleftrightarrow>
                 (\<exists>u. userId = JStr u \<and> u \<noteq> [] \<and> has_like d (fp_id (?fmt p)) u)" for p
    using assms
    by (cases userId)
       (auto simp: format_post_def with_includes_def post_likes_where_nonempty)
  have none: "userId = JUndefined \<longrightarrow> \<not> isLiked (?fmt p)" for p
    using liked [of p] by blast
  have inv: "(\<forall>l \<in> set (likes d). like_userId l \<noteq> []) \<longrightarrow>
               (isLiked (?fmt p) \<longleftrightarrow> (\<exists>u. userId = JStr u \<and> has_like d (fp_id (?fmt p)) u))"
    for p
    unfolding liked by (auto simp: has_like_def)
  have 3: "\<forall>f \<in> set (map ?fmt ?rows).
             likeCount f = length (filter (\<lambda>l. like_postId l = fp_id f) (likes d))
             \<and> (isLiked f \<longleftrightarrow> (\<exists>u. userId = JStr u \<and> u \<noteq> [] \<and> has_like d (fp_id f) u))
             \<and> (userId = JUndefined \<longrightarrow> \<not> isLiked f)
             \<and> ((\<forall>l \<in> set (likes d). like_userId l \<noteq> []) \<longrightarrow>
                   (isLiked f \<longleftrightarrow> (\<exists>u. userId = JStr u \<and> has_like d (fp_id f) u)))"
    using cnt liked none inv by (simp del: map_map)
  from 1 2 ms 3 show ?thesis by blast
qed

theorem list_posts_like_fields_witness:
  "GET_api_posts example_db (JStr (js ''u1'')) =
     \<lparr>status = 200,
      body = Formatted_posts_body
        [\<lparr>fp_id = 1, fp_content = js ''hello'', fp_imageUrl = None, fp_userId = None,
          fp_createdAt = 1000, fp_updatedAt = 1000, likeCount = 1, isLiked = True\<rparr>,
         \<lparr>fp_id = 2, fp_content = js ''hello'', fp_imageUrl = None, fp_userId = None,
          fp_createdAt = 1000, fp_updatedAt = 1000, likeCount = 0, isLiked = False\<rparr>]\<rparr>"
proof -
  let ?rows = "[example_post 1 1000, example_post 2 1000]"
  have h: "truthy (JStr (js ''u1'')) \<longrightarrow> (\<exists>u. JStr (js ''u1'') = JStr u)" by simp
  have rows: "post_findMany example_db Desc = ?rows"
    by (simp add: post_findMany_def orderBy_createdAt_def example_db_def example_post_def)
  from list_posts_like_fields [of "JStr (js ''u1'')" example_db, OF h]
  obtain fs where all:
    "GET_api_posts example_db (JStr (js ''u1'')) =
       \<lparr>status = 200, body = Formatted_posts_body fs\<rparr>
     \<and> map post_of fs = post_findMany example_db Desc
     \<and> mset (map post_of fs) = mset (posts example_db)
     \<and> (\<forall>f \<in> set fs.
            likeCount f = length (filter (\<lambda>l. like_postId l = fp_id f) (likes example_db))
            \<and> (isLiked f \<longleftrightarrow>
                 (\<exists>u. JStr (js ''u1'') = JStr u \<and> u \<noteq> [] \<and> has_like example_db (fp_id f) u))
            \<and> (JStr (js ''u1'') = JUndefined \<longrightarrow> \<not> isLiked f)
            \<and> ((\<forall>l \<in> set (likes example_db). like_userId l \<noteq> []) \<longrightarrow>
                  (isLiked f \<longleftrightarrow>
                     (\<exists>u. JStr (js ''u1'') = JStr u \<and> has_like example_db (fp_id f) u))))"
    ..
  from all have r: "GET_api_posts example_db (JStr (js ''u1'')) =
                      \<lparr>status = 200, body = Formatted_posts_body fs\<rparr>"
    and m: "map post_of fs = ?rows"
    by (simp_all add: rows)
  from all have p: "\<forall>f \<in> set fs.
              likeCount f = length (filter (\<lambda>l. like_postId l = fp_id f) (likes example_db))
              \<and> (isLiked f \<longleftrightarrow> has_like example_db (fp_id f) (js ''u1''))"
    by (simp add: js_simps)
  from m obtain a b where fs: "fs = [a, b]"
    and a: "post_of a = example_post 1 1000" and b: "post_of b = example_post 2 1000"
    by (auto simp: map_eq_Cons_conv)
  have ia: "fp_id a = 1" and ib: "fp_id b = 2"
    using a b by (auto simp: post_of_def example_post_def)
  have "likeCount a = 1" "isLiked a" "likeCount b = 0" "\<not> isLiked b"
    using p by (simp_all add: fs ia ib has_like_def example_db_def js_simps)
  then have "a = \<lparr>fp_id = 1, fp_content = js ''hello'', fp_imageUrl = None, fp_userId = None,
                  fp_createdAt = 1000, fp_updatedAt = 1000, likeCount = 1, isLiked = True\<rparr>"
    and "b = \<lparr>fp_id = 2, fp_content = js ''hello'', fp_imageUrl = None, fp_userId = None,
               fp_createdAt = 1000, fp_updatedAt = 1000, likeCount = 0, isLiked = False\<rparr>"
    using a b by (cases a; cases b; simp add: post_of_def example_post_def)+
  then show ?thesis
    using r fs by simp
qed


section \<open>The listening port\<close>

text \<open>
  C8, as amended. \<^verbatim>\<open>server.js\<close> listens on 8888 whatever the environment holds. The
  revision \<^verbatim>\<open>part_000\<close> takes the port from the variable \<^verbatim>\<open>PORT\<close> when that is set
  and not empty, and 8888 otherwise.
\<close>

theorem port_is_constant:
  "PORT env = JNum 8888
   \<and> PORT_part_000 env =
       (case env ''PORT'' of None \<Rightarrow> JNum 8888 | Some s \<Rightarrow> if s = [] then JNum 8888 else JStr s)"
  by (simp add: PORT_def PORT_part_000_def split: option.splits)

text \<open>
  The claim as first stated lets the environment select the port. With \<^verbatim>\<open>PORT=3000\<close>
  the port of \<^verbatim>\<open>server.js\<close> is still 8888; only the revision \<^verbatim>\<open>part_000\<close> follows
  the variable.
\<close>

theorem port_environment_counterexample:
  "PORT (env_with_PORT (js ''3000'')) = JNum 8888
   \<and> PORT_part_000 (env_with_PORT (js ''3000'')) = JStr (js ''3000'')"
  by (simp add: PORT_def PORT_part_000_def env_with_PORT_def js_simps)

end
